theory Spec2Isabelle
  imports Main
begin

section \<open>The WITSML store client of komle (soap\_client.py)\<close>

text \<open>
  The module is a facade over three libraries: \<^verbatim>\<open>requests\<close> (HTTP), \<^verbatim>\<open>suds\<close> (SOAP)
  and the generated \<^verbatim>\<open>witsml\<close> bindings (pyxb). The functions of the module are embedded
  one by one; what the libraries compute is a parameter of the embedding (the record
  \<open>env\<close> below), and every remote effect is written into an explicit \<open>world\<close> that
  each function takes and returns. An exception is a value \<open>Inl e\<close> of a sum type.
\<close>

subsection \<open>Values and exceptions\<close>

text \<open>Keyword-argument values of the module: a \<^verbatim>\<open>str\<close> or a \<^verbatim>\<open>bool\<close>
  (\<^verbatim>\<open>verify: Union[bool,str]\<close>).\<close>

datatype pyval = PyStr string | PyBool bool

text \<open>The request object suds hands to a transport, the response object of
  \<^verbatim>\<open>requests\<close>, and the \<^verbatim>\<open>Reply(code, headers, message)\<close> of suds.\<close>

record Request =
  url :: string
  message :: string
  headers :: "(string \<times> string) list"

record Response =
  status_code :: int
  resp_headers :: "(string \<times> string) list"
  content :: string

datatype Reply = Reply int "(string \<times> string) list" string

text \<open>The arguments of one call \<^verbatim>\<open>requests.post(url, data=, headers=, verify=, auth=)\<close>.\<close>

record post_call =
  post_url :: string
  post_data :: string
  post_headers :: "(string \<times> string) list"
  post_verify :: "pyval option"
  post_auth :: "pyval option \<times> pyval option"

text \<open>The reply object of the operation \<^verbatim>\<open>WMLS_GetFromStore\<close>, with its three outputs:
  a result code (a short integer in the WSDL), the supplementary message and the output
  XML. The supplementary message is a string, or \<^verbatim>\<open>None\<close> (here \<open>None\<close>) when the
  element of the reply is empty, as suds decodes it. The output XML is only handed on to
  \<^verbatim>\<open>witsml.CreateFromDocument\<close>, never inspected.\<close>

record store_reply =
  Result :: int
  SuppMsgOut :: "string option"
  XMLout :: string

text \<open>The arguments of one invocation of \<^verbatim>\<open>WMLS_GetFromStore\<close>: two positional
  arguments (the object type and the query document) and the two optional ones.\<close>

record store_call =
  WMLtypeIn :: string
  XMLin :: string
  OptionsIn :: "string option"
  CapabilitiesIn :: "string option"

text \<open>
  Exceptions. \<open>StoreException\<close> is the module's own class: its message and the reply
  it keeps. \<open>HTTPError\<close> is what \<^verbatim>\<open>raise_for_status\<close> raises. The other three carry
  an exception raised inside a library (by \<^verbatim>\<open>witsml.CreateFromDocument\<close>, by
  \<^verbatim>\<open>requests.post\<close>, by suds when it decodes a reply), which the module never catches.
\<close>

datatype 'x exn =
    StoreException string store_reply
  | HTTPError Response
  | BindingException 'x
  | RequestsException 'x
  | SudsException 'x

subsection \<open>The transport and the SOAP client\<close>

record RequestsTransport =
  verify :: "pyval option"
  auth :: "pyval option \<times> pyval option"
  http_kwargs :: "(string \<times> pyval) list"

text \<open>The suds client after \<^verbatim>\<open>Client(wsdl, location=...)\<close> and
  \<^verbatim>\<open>set_options(transport=..., headers=...)\<close>.\<close>

record soap_client =
  wsdl :: string
  location :: string
  transport :: RequestsTransport
  client_headers :: "(string \<times> string) list"

record StoreClient =
  soap_client :: soap_client

text \<open>A collection object of the bindings (\<^verbatim>\<open>witsml.logs\<close>, \<^verbatim>\<open>witsml.bhaRuns\<close>, ...):
  its class, its \<^verbatim>\<open>version\<close> attribute and the objects appended to it. A query object
  is opaque (the type variable \<open>'q\<close>).\<close>

datatype plural =
    bhaRuns | logs | mudLogs | trajectorys | wellbores
  | tubulars | fluidsReports | drillReports | wbGeometrys | formationMarkers

record 'q collection =
  ctype :: plural
  version :: string
  members :: "'q list"

text \<open>
  What the libraries and the remote store do, as parameters:
  \<^item> \<open>requests_post\<close>: the outcome of one \<^verbatim>\<open>requests.post\<close>, given the posts made before
    it (the store may answer differently each time): an exception of \<^verbatim>\<open>requests\<close> or a
    response;
  \<^item> \<open>marshal\<close> and \<open>unmarshal\<close>: suds building the request of an invocation and decoding
    the transport's reply into a reply object (or raising);
  \<^item> \<open>toxml\<close>, \<open>CreateFromDocument\<close> and \<open>witsml_version\<close>: the bindings, where
    \<^verbatim>\<open>CreateFromDocument\<close> raises on a document it cannot read or validate, as the
    docstrings of the getters say. Building the query collection and serialising it
    (\<^verbatim>\<open>toxml\<close>) are taken to succeed: the getters name no exception of theirs;
  \<^item> \<open>wsdl_path\<close>: the path of WMLS.WSDL beside the module.
\<close>

record ('x, 'q, 'c) env =
  requests_post :: "post_call list \<Rightarrow> post_call \<Rightarrow> 'x + Response"
  marshal :: "soap_client \<Rightarrow> store_call \<Rightarrow> Request"
  unmarshal :: "Reply \<Rightarrow> 'x + store_reply"
  toxml :: "'q collection \<Rightarrow> string"
  CreateFromDocument :: "string \<Rightarrow> 'x + 'c"
  witsml_version :: string
  wsdl_path :: string

text \<open>The effects: the invocations of the remote procedure and the HTTP posts, in order.\<close>

record world =
  invocations :: "store_call list"
  posts :: "post_call list"

subsection \<open>RequestsTransport\<close>

text \<open>\<^verbatim>\<open>kwargs.pop(key, None)\<close>: the value under the key, if any, and the other entries.\<close>

definition pop :: "string \<Rightarrow> (string \<times> pyval) list \<Rightarrow> pyval option \<times> (string \<times> pyval) list" where
  "pop key kwargs = (map_of kwargs key, filter (\<lambda>kv. fst kv \<noteq> key) kwargs)"

definition RequestsTransport_init :: "(string \<times> pyval) list \<Rightarrow> RequestsTransport" where
  "RequestsTransport_init kwargs =
     (let (v, kwargs1) = pop ''verify'' kwargs;
          (u, kwargs2) = pop ''username'' kwargs1;
          (p, kwargs3) = pop ''password'' kwargs2
      in \<lparr>verify = v, auth = (u, p), http_kwargs = kwargs3\<rparr>)"

text \<open>\<^verbatim>\<open>Response.raise_for_status\<close> of \<^verbatim>\<open>requests\<close>: an \<^verbatim>\<open>HTTPError\<close> for a client
  error (400 to 499) or a server error (500 to 599), nothing otherwise.\<close>

definition raise_for_status :: "Response \<Rightarrow> 'x exn + unit" where
  "raise_for_status resp =
     (if 400 \<le> status_code resp \<and> status_code resp < 500 then Inl (HTTPError resp)
      else if 500 \<le> status_code resp \<and> status_code resp < 600 then Inl (HTTPError resp)
      else Inr ())"

definition send ::
  "('x, 'q, 'c) env \<Rightarrow> RequestsTransport \<Rightarrow> Request \<Rightarrow> world \<Rightarrow> ('x exn + Reply) \<times> world" where
  "send E self request w =
     (let call = \<lparr>post_url = url request, post_data = message request,
                  post_headers = headers request, post_verify = verify self,
                  post_auth = auth self\<rparr>;
          w' = w\<lparr>posts := posts w @ [call]\<rparr>
      in case requests_post E (posts w) call of
           Inl x \<Rightarrow> (Inl (RequestsException x), w')
         | Inr resp \<Rightarrow>
             (case raise_for_status resp of
                Inl e \<Rightarrow> (Inl e, w')
              | Inr _ \<Rightarrow> (Inr (Reply (status_code resp) (resp_headers resp) (content resp)), w')))"

subsection \<open>simple\_client\<close>

text \<open>An optional argument is \<open>None\<close> when the caller omits it; the defaults are
  \<^verbatim>\<open>agent_name='komle'\<close> and \<^verbatim>\<open>verify=True\<close>.\<close>

definition simple_client ::
  "('x, 'q, 'c) env \<Rightarrow> string \<Rightarrow> string \<Rightarrow> string \<Rightarrow> string option \<Rightarrow> pyval option \<Rightarrow> soap_client" where
  "simple_client E service_url username password agent_name_opt verify_opt =
     (let agent_name = (case agent_name_opt of None \<Rightarrow> ''komle'' | Some a \<Rightarrow> a);
          verify_arg = (case verify_opt of None \<Rightarrow> PyBool True | Some v \<Rightarrow> v);
          transport = RequestsTransport_init
            [(''username'', PyStr username), (''password'', PyStr password),
             (''verify'', verify_arg)]
      in \<lparr>wsdl = ''file:'' @ wsdl_path E, location = service_url,
          transport = transport, client_headers = [(''User-Agent'', agent_name)]\<rparr>)"

subsection \<open>StoreException and \_parse\_reply\<close>

text \<open>Python's \<^verbatim>\<open>str\<close> of an integer, as the f-string of the exception formats the
  result code: decimal digits, with a minus sign below zero.\<close>

definition digit_char :: "nat \<Rightarrow> char" where
  "digit_char d = ''0123456789'' ! d"

fun str_nat :: "nat \<Rightarrow> string" where
  "str_nat n = (if n < 10 then [digit_char n] else str_nat (n div 10) @ [digit_char (n mod 10)])"

declare str_nat.simps [simp del]

definition str_int :: "int \<Rightarrow> string" where
  "str_int i = (if i < 0 then CHR ''-'' # str_nat (nat (- i)) else str_nat (nat i))"

text \<open>What an f-string makes of a value that is a \<^verbatim>\<open>str\<close> or \<^verbatim>\<open>None\<close>: the string
  itself, or the four characters \<^verbatim>\<open>None\<close>.\<close>

definition format_str :: "string option \<Rightarrow> string" where
  "format_str v = (case v of None \<Rightarrow> ''None'' | Some t \<Rightarrow> t)"

definition StoreException_init :: "store_reply \<Rightarrow> 'x exn" where
  "StoreException_init reply =
     StoreException (str_int (Result reply) @ '': '' @ format_str (SuppMsgOut reply)) reply"

definition parse_reply :: "('x, 'q, 'c) env \<Rightarrow> store_reply \<Rightarrow> 'x exn + 'c" where
  "parse_reply E reply =
     (if Result reply = 1 then
        (case CreateFromDocument E (XMLout reply) of
           Inl x \<Rightarrow> Inl (BindingException x) | Inr c \<Rightarrow> Inr c)
      else if Result reply = 2 then
        (case CreateFromDocument E (XMLout reply) of
           Inl x \<Rightarrow> Inl (BindingException x) | Inr c \<Rightarrow> Inr c)
      else Inl (StoreException_init reply))"

subsection \<open>The remote procedure\<close>

text \<open>
  \<^verbatim>\<open>self.soap_client.service.WMLS_GetFromStore(...)\<close>: the invocation is recorded, suds
  builds the request and hands it to the client's transport (\<open>send\<close> above, once), and
  decodes the transport's reply. An exception of the transport passes through suds
  unchanged (suds catches only its own \<^verbatim>\<open>TransportError\<close>).
\<close>

definition WMLS_GetFromStore ::
  "('x, 'q, 'c) env \<Rightarrow> soap_client \<Rightarrow> store_call \<Rightarrow> world \<Rightarrow> ('x exn + store_reply) \<times> world" where
  "WMLS_GetFromStore E client call w =
     (let w1 = w\<lparr>invocations := invocations w @ [call]\<rparr>;
          (r, w2) = send E (transport client) (marshal E client call) w1
      in case r of
           Inl e \<Rightarrow> (Inl e, w2)
         | Inr rep \<Rightarrow>
             (case unmarshal E rep of
                Inl x \<Rightarrow> (Inl (SudsException x), w2)
              | Inr reply \<Rightarrow> (Inr reply, w2)))"

subsection \<open>StoreClient\<close>

definition StoreClient_init ::
  "('x, 'q, 'c) env \<Rightarrow> string \<Rightarrow> string \<Rightarrow> string \<Rightarrow> string option \<Rightarrow> pyval option \<Rightarrow> StoreClient" where
  "StoreClient_init E service_url username password agent_name_opt verify_opt =
     (let agent_name = (case agent_name_opt of None \<Rightarrow> ''komle'' | Some a \<Rightarrow> a);
          verify_arg = (case verify_opt of None \<Rightarrow> PyBool True | Some v \<Rightarrow> v)
      in \<lparr>soap_client = simple_client E service_url username password
                          (Some agent_name) (Some verify_arg)\<rparr>)"

text \<open>The constructor of a collection class with \<^verbatim>\<open>version=\<close>, and \<^verbatim>\<open>append\<close>.\<close>

definition witsml_new :: "plural \<Rightarrow> string \<Rightarrow> 'q collection" where
  "witsml_new cls v = \<lparr>ctype = cls, version = v, members = []\<rparr>"

definition append_obj :: "'q collection \<Rightarrow> 'q \<Rightarrow> 'q collection" where
  "append_obj coll q = coll\<lparr>members := members coll @ [q]\<rparr>"

text \<open>
  The ten getters, as the source writes them, one by one. The argument
  \<open>returnElements_opt\<close> is \<open>None\<close> when the caller omits \<^verbatim>\<open>returnElements\<close>
  (default \<^verbatim>\<open>'id-only'\<close>). Each returns the outcome (an exception or the object
  \<^verbatim>\<open>_parse_reply\<close> returns) and the world after the call.
\<close>

definition get_bhaRuns ::
  "('x, 'q, 'c) env \<Rightarrow> StoreClient \<Rightarrow> 'q \<Rightarrow> string option \<Rightarrow> world \<Rightarrow> ('x exn + 'c) \<times> world" where
  "get_bhaRuns E self q_bha returnElements_opt w =
     (let returnElements = (case returnElements_opt of None \<Rightarrow> ''id-only'' | Some s \<Rightarrow> s);
          q_bhas = append_obj (witsml_new bhaRuns (witsml_version E)) q_bha;
          (reply_bhas, w') = WMLS_GetFromStore E (soap_client self)
             \<lparr>WMLtypeIn = ''bhaRun'', XMLin = toxml E q_bhas,
              OptionsIn = Some (''returnElements='' @ returnElements),
              CapabilitiesIn = None\<rparr> w
      in case reply_bhas of
           Inl e \<Rightarrow> (Inl e, w')
         | Inr reply \<Rightarrow> (parse_reply E reply, w'))"

definition get_logs ::
  "('x, 'q, 'c) env \<Rightarrow> StoreClient \<Rightarrow> 'q \<Rightarrow> string option \<Rightarrow> world \<Rightarrow> ('x exn + 'c) \<times> world" where
  "get_logs E self q_log returnElements_opt w =
     (let returnElements = (case returnElements_opt of None \<Rightarrow> ''id-only'' | Some s \<Rightarrow> s);
          q_logs = append_obj (witsml_new logs (witsml_version E)) q_log;
          (reply_logs, w') = WMLS_GetFromStore E (soap_client self)
             \<lparr>WMLtypeIn = ''log'', XMLin = toxml E q_logs,
              OptionsIn = Some (''returnElements='' @ returnElements),
              CapabilitiesIn = None\<rparr> w
      in case reply_logs of
           Inl e \<Rightarrow> (Inl e, w')
         | Inr reply \<Rightarrow> (parse_reply E reply, w'))"

definition get_mudLogs ::
  "('x, 'q, 'c) env \<Rightarrow> StoreClient \<Rightarrow> 'q \<Rightarrow> string option \<Rightarrow> world \<Rightarrow> ('x exn + 'c) \<times> world" where
  "get_mudLogs E self q_mudlog returnElements_opt w =
     (let returnElements = (case returnElements_opt of None \<Rightarrow> ''id-only'' | Some s \<Rightarrow> s);
          q_mudlogs = append_obj (witsml_new mudLogs (witsml_version E)) q_mudlog;
          (reply_mudlogs, w') = WMLS_GetFromStore E (soap_client self)
             \<lparr>WMLtypeIn = ''mudLog'', XMLin = toxml E q_mudlogs,
              OptionsIn = Some (''returnElements='' @ returnElements),
              CapabilitiesIn = None\<rparr> w
      in case reply_mudlogs of
           Inl e \<Rightarrow> (Inl e, w')
         | Inr reply \<Rightarrow> (parse_reply E reply, w'))"

definition get_trajectorys ::
  "('x, 'q, 'c) env \<Rightarrow> StoreClient \<Rightarrow> 'q \<Rightarrow> string option \<Rightarrow> world \<Rightarrow> ('x exn + 'c) \<times> world" where
  "get_trajectorys E self q_traj returnElements_opt w =
     (let returnElements = (case returnElements_opt of None \<Rightarrow> ''id-only'' | Some s \<Rightarrow> s);
          q_trajs = append_obj (witsml_new trajectorys (witsml_version E)) q_traj;
          (reply_traj, w') = WMLS_GetFromStore E (soap_client self)
             \<lparr>WMLtypeIn = ''trajectory'', XMLin = toxml E q_trajs,
              OptionsIn = Some (''returnElements='' @ returnElements),
              CapabilitiesIn = None\<rparr> w
      in case reply_traj of
           Inl e \<Rightarrow> (Inl e, w')
         | Inr reply \<Rightarrow> (parse_reply E reply, w'))"

definition get_wellbores ::
  "('x, 'q, 'c) env \<Rightarrow> StoreClient \<Rightarrow> 'q \<Rightarrow> string option \<Rightarrow> world \<Rightarrow> ('x exn + 'c) \<times> world" where
  "get_wellbores E self q_wellbore returnElements_opt w =
     (let returnElements = (case returnElements_opt of None \<Rightarrow> ''id-only'' | Some s \<Rightarrow> s);
          q_wellbores = append_obj (witsml_new wellbores (witsml_version E)) q_wellbore;
          (reply_wellbores, w') = WMLS_GetFromStore E (soap_client self)
             \<lparr>WMLtypeIn = ''wellbore'', XMLin = toxml E q_wellbores,
              OptionsIn = Some (''returnElements='' @ returnElements),
              CapabilitiesIn = None\<rparr> w
      in case reply_wellbores of
           Inl e \<Rightarrow> (Inl e, w')
         | Inr reply \<Rightarrow> (parse_reply E reply, w'))"

definition get_tubulars ::
  "('x, 'q, 'c) env \<Rightarrow> StoreClient \<Rightarrow> 'q \<Rightarrow> string option \<Rightarrow> world \<Rightarrow> ('x exn + 'c) \<times> world" where
  "get_tubulars E self q_tubular returnElements_opt w =
     (let returnElements = (case returnElements_opt of None \<Rightarrow> ''id-only'' | Some s \<Rightarrow> s);
          q_tubulars = append_obj (witsml_new tubulars (witsml_version E)) q_tubular;
          (reply_tubular, w') = WMLS_GetFromStore E (soap_client self)
             \<lparr>WMLtypeIn = ''tubular'', XMLin = toxml E q_tubulars,
              OptionsIn = Some (''returnElements='' @ returnElements),
              CapabilitiesIn = None\<rparr> w
      in case reply_tubular of
           Inl e \<Rightarrow> (Inl e, w')
         | Inr reply \<Rightarrow> (parse_reply E reply, w'))"

definition get_fluidsReports ::
  "('x, 'q, 'c) env \<Rightarrow> StoreClient \<Rightarrow> 'q \<Rightarrow> string option \<Rightarrow> world \<Rightarrow> ('x exn + 'c) \<times> world" where
  "get_fluidsReports E self q_fluidsReport returnElements_opt w =
     (let returnElements = (case returnElements_opt of None \<Rightarrow> ''id-only'' | Some s \<Rightarrow> s);
          q_fluidsReports = append_obj (witsml_new fluidsReports (witsml_version E)) q_fluidsReport;
          (reply_fluidsReport, w') = WMLS_GetFromStore E (soap_client self)
             \<lparr>WMLtypeIn = ''fluidsReport'', XMLin = toxml E q_fluidsReports,
              OptionsIn = Some (''returnElements='' @ returnElements),
              CapabilitiesIn = None\<rparr> w
      in case reply_fluidsReport of
           Inl e \<Rightarrow> (Inl e, w')
         | Inr reply \<Rightarrow> (parse_reply E reply, w'))"

definition get_drillReports ::
  "('x, 'q, 'c) env \<Rightarrow> StoreClient \<Rightarrow> 'q \<Rightarrow> string option \<Rightarrow> world \<Rightarrow> ('x exn + 'c) \<times> world" where
  "get_drillReports E self q_drillReport returnElements_opt w =
     (let returnElements = (case returnElements_opt of None \<Rightarrow> ''id-only'' | Some s \<Rightarrow> s);
          q_drillReports = append_obj (witsml_new drillReports (witsml_version E)) q_drillReport;
          (reply_drillReport, w') = WMLS_GetFromStore E (soap_client self)
             \<lparr>WMLtypeIn = ''drillReport'', XMLin = toxml E q_drillReports,
              OptionsIn = Some (''returnElements='' @ returnElements),
              CapabilitiesIn = None\<rparr> w
      in case reply_drillReport of
           Inl e \<Rightarrow> (Inl e, w')
         | Inr reply \<Rightarrow> (parse_reply E reply, w'))"

definition get_wbGeometrys ::
  "('x, 'q, 'c) env \<Rightarrow> StoreClient \<Rightarrow> 'q \<Rightarrow> string option \<Rightarrow> world \<Rightarrow> ('x exn + 'c) \<times> world" where
  "get_wbGeometrys E self q_wbGeometry returnElements_opt w =
     (let returnElements = (case returnElements_opt of None \<Rightarrow> ''id-only'' | Some s \<Rightarrow> s);
          q_wbGeometrys = append_obj (witsml_new wbGeometrys (witsml_version E)) q_wbGeometry;
          (reply_wbGeometry, w') = WMLS_GetFromStore E (soap_client self)
             \<lparr>WMLtypeIn = ''wbGeometry'', XMLin = toxml E q_wbGeometrys,
              OptionsIn = Some (''returnElements='' @ returnElements),
              CapabilitiesIn = None\<rparr> w
      in case reply_wbGeometry of
           Inl e \<Rightarrow> (Inl e, w')
         | Inr reply \<Rightarrow> (parse_reply E reply, w'))"

definition get_formationMarkers ::
  "('x, 'q, 'c) env \<Rightarrow> StoreClient \<Rightarrow> 'q \<Rightarrow> string option \<Rightarrow> world \<Rightarrow> ('x exn + 'c) \<times> world" where
  "get_formationMarkers E self q_formationMarker returnElements_opt w =
     (let returnElements = (case returnElements_opt of None \<Rightarrow> ''id-only'' | Some s \<Rightarrow> s);
          q_formationMarkers = append_obj (witsml_new formationMarkers (witsml_version E)) q_formationMarker;
          (reply_formationMarker, w') = WMLS_GetFromStore E (soap_client self)
             \<lparr>WMLtypeIn = ''formationMarker'', XMLin = toxml E q_formationMarkers,
              OptionsIn = Some (''returnElements='' @ returnElements),
              CapabilitiesIn = None\<rparr> w
      in case reply_formationMarker of
           Inl e \<Rightarrow> (Inl e, w')
         | Inr reply \<Rightarrow> (parse_reply E reply, w'))"

subsection \<open>Tables for the statements\<close>

text \<open>The ten public getters of \<^verbatim>\<open>StoreClient\<close>, so that a statement can range over them.\<close>

datatype getter =
    Get_bhaRuns | Get_logs | Get_mudLogs | Get_trajectorys | Get_wellbores
  | Get_tubulars | Get_fluidsReports | Get_drillReports | Get_wbGeometrys
  | Get_formationMarkers

fun call_getter ::
  "getter \<Rightarrow> ('x, 'q, 'c) env \<Rightarrow> StoreClient \<Rightarrow> 'q \<Rightarrow> string option \<Rightarrow> world \<Rightarrow> ('x exn + 'c) \<times> world" where
  "call_getter Get_bhaRuns = get_bhaRuns"
| "call_getter Get_logs = get_logs"
| "call_getter Get_mudLogs = get_mudLogs"
| "call_getter Get_trajectorys = get_trajectorys"
| "call_getter Get_wellbores = get_wellbores"
| "call_getter Get_tubulars = get_tubulars"
| "call_getter Get_fluidsReports = get_fluidsReports"
| "call_getter Get_drillReports = get_drillReports"
| "call_getter Get_wbGeometrys = get_wbGeometrys"
| "call_getter Get_formationMarkers = get_formationMarkers"

text \<open>What each getter is expected to use: the singular object type it names to the
  store and the collection class it wraps the query in.\<close>

fun singular :: "getter \<Rightarrow> string" where
  "singular Get_bhaRuns = ''bhaRun''"
| "singular Get_logs = ''log''"
| "singular Get_mudLogs = ''mudLog''"
| "singular Get_trajectorys = ''trajectory''"
| "singular Get_wellbores = ''wellbore''"
| "singular Get_tubulars = ''tubular''"
| "singular Get_fluidsReports = ''fluidsReport''"
| "singular Get_drillReports = ''drillReport''"
| "singular Get_wbGeometrys = ''wbGeometry''"
| "singular Get_formationMarkers = ''formationMarker''"

fun plural_of :: "getter \<Rightarrow> plural" where
  "plural_of Get_bhaRuns = bhaRuns"
| "plural_of Get_logs = logs"
| "plural_of Get_mudLogs = mudLogs"
| "plural_of Get_trajectorys = trajectorys"
| "plural_of Get_wellbores = wellbores"
| "plural_of Get_tubulars = tubulars"
| "plural_of Get_fluidsReports = fluidsReports"
| "plural_of Get_drillReports = drillReports"
| "plural_of Get_wbGeometrys = wbGeometrys"
| "plural_of Get_formationMarkers = formationMarkers"

text \<open>The invocation a getter is expected to make for a query object and a value of
  \<^verbatim>\<open>returnElements\<close>: the query alone in a new collection of the getter's class, with
  the version of the bindings, serialised.\<close>

definition expected_call :: "getter \<Rightarrow> ('x, 'q, 'c) env \<Rightarrow> 'q \<Rightarrow> string \<Rightarrow> store_call" where
  "expected_call g E q s =
     \<lparr>WMLtypeIn = singular g,
      XMLin = toxml E \<lparr>ctype = plural_of g, version = witsml_version E, members = [q]\<rparr>,
      OptionsIn = Some (''returnElements='' @ s),
      CapabilitiesIn = None\<rparr>"

text \<open>The values of \<^verbatim>\<open>returnElements\<close> that the docstrings of the getters list.\<close>

definition returnElements_values :: "string list" where
  "returnElements_values =
     [''all'', ''id-only'', ''header-only'', ''data-only'', ''station-location-only'',
      ''latest-change-only'', ''requested'']"

subsection \<open>A store to evaluate on\<close>

text \<open>
  A small instance of the parameters, for evaluating the functions on concrete inputs:
  a store that answers every post with the given HTTP status and body, a suds that reads
  the body as the output XML of a reply with the given result code, and bindings whose
  documents are plain strings, the empty document being unreadable.
\<close>

definition example_env :: "int \<Rightarrow> int \<Rightarrow> string \<Rightarrow> (string, string, string list) env" where
  "example_env status result body =
     \<lparr>requests_post = (\<lambda>earlier call.
        Inr \<lparr>status_code = status, resp_headers = [], content = body\<rparr>),
      marshal = (\<lambda>client call.
        \<lparr>url = location client, message = WMLtypeIn call @ XMLin call,
         headers = client_headers client\<rparr>),
      unmarshal = (\<lambda>rep. case rep of Reply c h m \<Rightarrow>
        Inr \<lparr>Result = result, SuppMsgOut = Some ''supp'', XMLout = m\<rparr>),
      toxml = (\<lambda>coll. version coll @ concat (members coll)),
      CreateFromDocument = (\<lambda>doc. if doc = [] then Inl ''no element found'' else Inr [doc]),
      witsml_version = ''1.4.1.1'',
      wsdl_path = ''WMLS.WSDL''\<rparr>"

definition example_client :: "int \<Rightarrow> int \<Rightarrow> string \<Rightarrow> StoreClient" where
  "example_client status result body =
     StoreClient_init (example_env status result body) ''https://store'' ''user'' ''secret'' None None"

definition no_calls :: world where
  "no_calls = \<lparr>invocations = [], posts = []\<rparr>"

section \<open>Properties\<close>

subsection \<open>Auxiliary facts\<close>

lemmas getter_defs = get_bhaRuns_def get_logs_def get_mudLogs_def get_trajectorys_def
  get_wellbores_def get_tubulars_def get_fluidsReports_def get_drillReports_def
  get_wbGeometrys_def get_formationMarkers_def

lemmas example_defs = example_env_def example_client_def no_calls_def StoreClient_init_def
  simple_client_def RequestsTransport_init_def pop_def WMLS_GetFromStore_def send_def
  raise_for_status_def parse_reply_def StoreException_init_def format_str_def
  str_int_def str_nat.simps
  digit_char_def expected_call_def witsml_new_def append_obj_def

lemma call_getter_Some:
  "call_getter g E self q (Some s) w =
     (case WMLS_GetFromStore E (soap_client self) (expected_call g E q s) w of
        (Inl e, w') \<Rightarrow> (Inl e, w')
      | (Inr reply, w') \<Rightarrow> (parse_reply E reply, w'))"
  by (cases g) (simp_all add: getter_defs expected_call_def witsml_new_def append_obj_def)

lemma call_getter_None:
  "call_getter g E self q None w = call_getter g E self q (Some ''id-only'') w"
  by (cases g) (simp_all add: getter_defs)

lemma send_posts:
  "posts (snd (send E tr req w)) =
     posts w @ [\<lparr>post_url = url req, post_data = message req, post_headers = headers req,
                 post_verify = verify tr, post_auth = auth tr\<rparr>]"
  by (simp add: send_def Let_def split: sum.splits)

lemma send_invocations: "invocations (snd (send E tr req w)) = invocations w"
  by (simp add: send_def Let_def split: sum.splits)

lemma WMLS_invocations:
  "invocations (snd (WMLS_GetFromStore E client call w)) = invocations w @ [call]"
proof -
  obtain r w2 where s: "send E (transport client) (marshal E client call)
      (w\<lparr>invocations := invocations w @ [call]\<rparr>) = (r, w2)"
    by (cases "send E (transport client) (marshal E client call)
      (w\<lparr>invocations := invocations w @ [call]\<rparr>)")
  have "invocations w2 = invocations w @ [call]"
    using send_invocations [of E "transport client" "marshal E client call"
      "w\<lparr>invocations := invocations w @ [call]\<rparr>"] s by simp
  then show ?thesis
    by (simp add: WMLS_GetFromStore_def Let_def s split: sum.splits)
qed

lemma WMLS_posts:
  "posts (snd (WMLS_GetFromStore E client call w)) =
     posts w @ [\<lparr>post_url = url (marshal E client call),
                 post_data = message (marshal E client call),
                 post_headers = headers (marshal E client call),
                 post_verify = verify (transport client),
                 post_auth = auth (transport client)\<rparr>]"
proof -
  obtain r w2 where s: "send E (transport client) (marshal E client call)
      (w\<lparr>invocations := invocations w @ [call]\<rparr>) = (r, w2)"
    by (cases "send E (transport client) (marshal E client call)
      (w\<lparr>invocations := invocations w @ [call]\<rparr>)")
  have "posts w2 = posts w @ [\<lparr>post_url = url (marshal E client call),
                 post_data = message (marshal E client call),
                 post_headers = headers (marshal E client call),
                 post_verify = verify (transport client),
                 post_auth = auth (transport client)\<rparr>]"
    using send_posts [of E "transport client" "marshal E client call"
      "w\<lparr>invocations := invocations w @ [call]\<rparr>"] s by simp
  then show ?thesis
    by (simp add: WMLS_GetFromStore_def Let_def s split: sum.splits)
qed

lemma call_getter_world:
  "snd (call_getter g E self q (Some s) w) =
     snd (WMLS_GetFromStore E (soap_client self) (expected_call g E q s) w)"
  by (simp add: call_getter_Some split: prod.splits sum.splits)

lemma call_getter_outcome:
  "fst (call_getter g E self q (Some s) w) =
     (case fst (WMLS_GetFromStore E (soap_client self) (expected_call g E q s) w) of
        Inl e \<Rightarrow> Inl e
      | Inr reply \<Rightarrow> parse_reply E reply)"
  by (simp add: call_getter_Some split: prod.splits sum.splits)

subsection \<open>Result codes other than 1 and 2\<close>

text \<open>
  Claim C1. For every reply whose result code is neither 1 nor 2, \<^verbatim>\<open>_parse_reply\<close>
  raises a \<open>StoreException\<close> whose message is the result code in decimal, a colon and a
  space, and the supplementary message as the f-string formats it (the message itself, or
  \<^verbatim>\<open>None\<close> for a reply whose supplementary message is empty); the exception keeps the
  reply, and no collection is returned. Hence every getter whose remote call returns such
  a reply raises that exception.
\<close>

theorem parse_reply_raises_StoreException:
  assumes "Result reply \<noteq> 1" and "Result reply \<noteq> 2"
  shows "parse_reply E reply =
           Inl (StoreException
             (str_int (Result reply) @ '': '' @
                (case SuppMsgOut reply of None \<Rightarrow> ''None'' | Some t \<Rightarrow> t)) reply)
       \<and> (\<forall>c. parse_reply E reply \<noteq> Inr c)
       \<and> (\<forall>g self q s w.
            fst (WMLS_GetFromStore E (soap_client self) (expected_call g E q s) w) = Inr reply
            \<longrightarrow> fst (call_getter g E self q (Some s) w) =
                  Inl (StoreException
                    (str_int (Result reply) @ '': '' @
                       (case SuppMsgOut reply of None \<Rightarrow> ''None'' | Some t \<Rightarrow> t)) reply))"
proof -
  have p: "parse_reply E reply =
      Inl (StoreException
        (str_int (Result reply) @ '': '' @
           (case SuppMsgOut reply of None \<Rightarrow> ''None'' | Some t \<Rightarrow> t)) reply)"
    using assms by (simp add: parse_reply_def StoreException_init_def format_str_def)
  show ?thesis
    by (simp add: p call_getter_outcome)
qed

theorem parse_reply_raises_StoreException_witness:
  "Result \<lparr>Result = - 425, SuppMsgOut = Some ''supp'', XMLout = ''<logs/>''\<rparr> \<noteq> 1
   \<and> Result \<lparr>Result = - 425, SuppMsgOut = Some ''supp'', XMLout = ''<logs/>''\<rparr> \<noteq> 2
   \<and> parse_reply (example_env 200 (- 425) ''<logs/>'')
        \<lparr>Result = - 425, SuppMsgOut = Some ''supp'', XMLout = ''<logs/>''\<rparr> =
      Inl (StoreException ''-425: supp''
        \<lparr>Result = - 425, SuppMsgOut = Some ''supp'', XMLout = ''<logs/>''\<rparr>)
   \<and> fst (call_getter Get_logs (example_env 200 (- 425) ''<logs/>'')
        (example_client 200 (- 425) ''<logs/>'') ''q'' (Some ''all'') no_calls) =
      Inl (StoreException ''-425: supp''
        \<lparr>Result = - 425, SuppMsgOut = Some ''supp'', XMLout = ''<logs/>''\<rparr>)
   \<and> Result \<lparr>Result = - 425, SuppMsgOut = None, XMLout = ''<logs/>''\<rparr> \<noteq> 1
   \<and> Result \<lparr>Result = - 425, SuppMsgOut = None, XMLout = ''<logs/>''\<rparr> \<noteq> 2
   \<and> parse_reply (example_env 200 (- 425) ''<logs/>'')
        \<lparr>Result = - 425, SuppMsgOut = None, XMLout = ''<logs/>''\<rparr> =
      Inl (StoreException ''-425: None''
        \<lparr>Result = - 425, SuppMsgOut = None, XMLout = ''<logs/>''\<rparr>)"
  using parse_reply_raises_StoreException
    [of "\<lparr>Result = - 425, SuppMsgOut = Some ''supp'', XMLout = ''<logs/>''\<rparr>"
        "example_env 200 (- 425) ''<logs/>''"]
    parse_reply_raises_StoreException
    [of "\<lparr>Result = - 425, SuppMsgOut = None, XMLout = ''<logs/>''\<rparr>"
        "example_env 200 (- 425) ''<logs/>''"]
  by (simp add: example_defs get_logs_def)

subsection \<open>Result codes 1 and 2\<close>

text \<open>
  Claim C2. For every reply whose result code is 1 or 2, the outcome of
  \<^verbatim>\<open>_parse_reply\<close> is the outcome of \<^verbatim>\<open>witsml.CreateFromDocument\<close> on the reply's
  output XML: it is never a \<open>StoreException\<close>, and it returns exactly the object that
  \<^verbatim>\<open>CreateFromDocument\<close> returns. The result for code 2 is the result for code 1
  on the same reply otherwise.
\<close>

theorem parse_reply_success:
  assumes "Result reply = 1 \<or> Result reply = 2"
  shows "parse_reply E reply =
           (case CreateFromDocument E (XMLout reply) of
              Inl x \<Rightarrow> Inl (BindingException x) | Inr c \<Rightarrow> Inr c)
       \<and> (\<forall>m r. parse_reply E reply \<noteq> Inl (StoreException m r))
       \<and> (\<forall>c. CreateFromDocument E (XMLout reply) = Inr c \<longrightarrow> parse_reply E reply = Inr c)
       \<and> parse_reply E (reply\<lparr>Result := 2\<rparr>) = parse_reply E (reply\<lparr>Result := 1\<rparr>)"
  using assms by (auto simp: parse_reply_def split: sum.splits)

theorem parse_reply_success_witness:
  "(Result \<lparr>Result = 2, SuppMsgOut = None, XMLout = ''<logs/>''\<rparr> = 1
      \<or> Result \<lparr>Result = 2, SuppMsgOut = None, XMLout = ''<logs/>''\<rparr> = 2)
   \<and> CreateFromDocument (example_env 200 2 ''<logs/>'') ''<logs/>'' = Inr [''<logs/>'']
   \<and> parse_reply (example_env 200 2 ''<logs/>'')
        \<lparr>Result = 2, SuppMsgOut = None, XMLout = ''<logs/>''\<rparr> = Inr [''<logs/>'']
   \<and> parse_reply (example_env 200 2 ''<logs/>'')
        \<lparr>Result = 1, SuppMsgOut = None, XMLout = ''<logs/>''\<rparr> = Inr [''<logs/>'']"
  using parse_reply_success
    [of "\<lparr>Result = 2, SuppMsgOut = None, XMLout = ''<logs/>''\<rparr>"
        "example_env 200 2 ''<logs/>''"]
  by (simp add: example_env_def parse_reply_def)

subsection \<open>The round trip of a getter\<close>

text \<open>
  Claim C3. For each of the ten getters and every query object, the getter invokes the
  remote procedure on the XML of a new collection of the getter's plural class, built
  with the version of the bindings and holding exactly the query object, with the given
  value of \<^verbatim>\<open>returnElements\<close>; and when the reply has result code 1 or 2 and
  \<^verbatim>\<open>CreateFromDocument\<close> reads its output XML, the getter returns the object read.
\<close>

theorem getter_round_trip:
  "invocations (snd (call_getter g E self q (Some s) w)) =
     invocations w @
       [\<lparr>WMLtypeIn = singular g,
         XMLin = toxml E \<lparr>ctype = plural_of g, version = witsml_version E, members = [q]\<rparr>,
         OptionsIn = Some (''returnElements='' @ s),
         CapabilitiesIn = None\<rparr>]
   \<and> (\<forall>reply c.
        fst (WMLS_GetFromStore E (soap_client self) (expected_call g E q s) w) = Inr reply
        \<and> (Result reply = 1 \<or> Result reply = 2)
        \<and> CreateFromDocument E (XMLout reply) = Inr c
        \<longrightarrow> fst (call_getter g E self q (Some s) w) = Inr c)"
proof -
  have a: "invocations (snd (call_getter g E self q (Some s) w)) =
      invocations w @ [expected_call g E q s]"
    by (simp add: call_getter_world WMLS_invocations)
  have b: "fst (call_getter g E self q (Some s) w) = Inr c"
    if "fst (WMLS_GetFromStore E (soap_client self) (expected_call g E q s) w) = Inr reply"
      and "Result reply = 1 \<or> Result reply = 2"
      and "CreateFromDocument E (XMLout reply) = Inr c" for reply c
    using that by (auto simp: call_getter_outcome parse_reply_def)
  from a b show ?thesis
    by (simp add: expected_call_def)
qed

theorem getter_round_trip_witness:
  "invocations (snd (call_getter Get_trajectorys (example_env 200 2 ''<trajectorys/>'')
       (example_client 200 2 ''<trajectorys/>'') ''q'' (Some ''all'') no_calls)) =
     [\<lparr>WMLtypeIn = ''trajectory'', XMLin = ''1.4.1.1q'',
       OptionsIn = Some ''returnElements=all'', CapabilitiesIn = None\<rparr>]
   \<and> fst (WMLS_GetFromStore (example_env 200 2 ''<trajectorys/>'')
       (soap_client (example_client 200 2 ''<trajectorys/>''))
       (expected_call Get_trajectorys (example_env 200 2 ''<trajectorys/>'') ''q'' ''all'')
       no_calls) = Inr \<lparr>Result = 2, SuppMsgOut = Some ''supp'', XMLout = ''<trajectorys/>''\<rparr>
   \<and> fst (call_getter Get_trajectorys (example_env 200 2 ''<trajectorys/>'')
       (example_client 200 2 ''<trajectorys/>'') ''q'' (Some ''all'') no_calls) =
     Inr [''<trajectorys/>'']"
  using getter_round_trip
    [of Get_trajectorys "example_env 200 2 ''<trajectorys/>''"
        "example_client 200 2 ''<trajectorys/>''" "''q''" "''all''" no_calls]
  by (simp add: example_defs)

subsection \<open>The arguments of the remote procedure\<close>

text \<open>
  Claim C4. Every call of a getter makes an invocation of \<^verbatim>\<open>WMLS_GetFromStore\<close> whose
  \<^verbatim>\<open>WMLtypeIn\<close> is the getter's singular object type (\<^verbatim>\<open>'log'\<close> for \<^verbatim>\<open>get_logs\<close>,
  \<^verbatim>\<open>'trajectory'\<close> for \<^verbatim>\<open>get_trajectorys\<close>, \<^verbatim>\<open>'bhaRun'\<close> for \<^verbatim>\<open>get_bhaRuns\<close>) and
  whose \<^verbatim>\<open>OptionsIn\<close> is \<^verbatim>\<open>'returnElements='\<close> followed by the argument; this holds in
  particular for each of the seven values the docstrings list.
\<close>

theorem getter_call_arguments:
  "(\<exists>c. invocations (snd (call_getter g E self q (Some s) w)) = invocations w @ [c]
        \<and> WMLtypeIn c = singular g
        \<and> OptionsIn c = Some (''returnElements='' @ s))
   \<and> (\<forall>v \<in> set returnElements_values.
        \<exists>c. invocations (snd (call_getter g E self q (Some v) w)) = invocations w @ [c]
          \<and> WMLtypeIn c = singular g
          \<and> OptionsIn c = Some (''returnElements='' @ v))
   \<and> singular Get_logs = ''log'' \<and> singular Get_trajectorys = ''trajectory''
   \<and> singular Get_bhaRuns = ''bhaRun''
   \<and> set returnElements_values =
        {''all'', ''id-only'', ''header-only'', ''data-only'', ''station-location-only'',
         ''latest-change-only'', ''requested''}"
proof -
  have a: "\<exists>c. invocations (snd (call_getter g E self q (Some v) w)) = invocations w @ [c]
        \<and> WMLtypeIn c = singular g
        \<and> OptionsIn c = Some (''returnElements='' @ v)" for v
    by (simp add: call_getter_world WMLS_invocations expected_call_def)
  have b: "set returnElements_values =
        {''all'', ''id-only'', ''header-only'', ''data-only'', ''station-location-only'',
         ''latest-change-only'', ''requested''}"
    by (simp add: returnElements_values_def)
  from a b show ?thesis by simp
qed

theorem getter_call_arguments_witness:
  "''header-only'' \<in> set returnElements_values
   \<and> invocations (snd (call_getter Get_bhaRuns (example_env 200 1 ''<bhaRuns/>'')
       (example_client 200 1 ''<bhaRuns/>'') ''q'' (Some ''header-only'') no_calls)) =
     [\<lparr>WMLtypeIn = ''bhaRun'', XMLin = ''1.4.1.1q'',
       OptionsIn = Some ''returnElements=header-only'', CapabilitiesIn = None\<rparr>]"
  using getter_call_arguments
    [of Get_bhaRuns "example_env 200 1 ''<bhaRuns/>''"
        "example_client 200 1 ''<bhaRuns/>''" "''q''" "''header-only''" no_calls]
  by (simp add: example_defs get_bhaRuns_def returnElements_values_def)

subsection \<open>Unreadable output XML\<close>

text \<open>
  Claim C5. For every reply with result code 1 or 2 on whose output XML
  \<^verbatim>\<open>witsml.CreateFromDocument\<close> raises, \<^verbatim>\<open>_parse_reply\<close> raises that same exception:
  not a \<open>StoreException\<close>, and no value is returned. Hence a getter whose remote call
  returns such a reply raises the exception of the bindings unchanged.
\<close>

theorem binding_exception_propagates:
  assumes "Result reply = 1 \<or> Result reply = 2"
    and "CreateFromDocument E (XMLout reply) = Inl x"
  shows "parse_reply E reply = Inl (BindingException x)
       \<and> (\<forall>m r. parse_reply E reply \<noteq> Inl (StoreException m r))
       \<and> (\<forall>c. parse_reply E reply \<noteq> Inr c)
       \<and> (\<forall>g self q s w.
            fst (WMLS_GetFromStore E (soap_client self) (expected_call g E q s) w) = Inr reply
            \<longrightarrow> fst (call_getter g E self q (Some s) w) = Inl (BindingException x))"
proof -
  have p: "parse_reply E reply = Inl (BindingException x)"
    using assms by (auto simp: parse_reply_def)
  show ?thesis
    by (simp add: p call_getter_outcome)
qed

theorem binding_exception_propagates_witness:
  "(Result \<lparr>Result = 1, SuppMsgOut = Some ''supp'', XMLout = ''''\<rparr> = 1
      \<or> Result \<lparr>Result = 1, SuppMsgOut = Some ''supp'', XMLout = ''''\<rparr> = 2)
   \<and> CreateFromDocument (example_env 200 1 '''')
        (XMLout \<lparr>Result = 1, SuppMsgOut = Some ''supp'', XMLout = ''''\<rparr>) = Inl ''no element found''
   \<and> parse_reply (example_env 200 1 '''')
        \<lparr>Result = 1, SuppMsgOut = Some ''supp'', XMLout = ''''\<rparr> =
      Inl (BindingException ''no element found'')
   \<and> fst (call_getter Get_wellbores (example_env 200 1 '''') (example_client 200 1 '''')
        ''q'' (Some ''id-only'') no_calls) = Inl (BindingException ''no element found'')"
  using binding_exception_propagates
    [of "\<lparr>Result = 1, SuppMsgOut = Some ''supp'', XMLout = ''''\<rparr>" "example_env 200 1 ''''"
        "''no element found''"]
  by (simp add: example_defs get_wellbores_def)

subsection \<open>One remote call per getter call\<close>

text \<open>
  Claim C6. Every call of a getter, with or without \<^verbatim>\<open>returnElements\<close>, makes exactly
  one invocation of \<^verbatim>\<open>WMLS_GetFromStore\<close>, whatever the store answers (any result code,
  any HTTP status, any exception): the invocations after the call are those before it and
  one more, and so are the HTTP posts of the transport.
\<close>

theorem getter_single_invocation:
  "(\<exists>c. invocations (snd (call_getter g E self q re w)) = invocations w @ [c])
   \<and> length (invocations (snd (call_getter g E self q re w))) = length (invocations w) + 1
   \<and> (\<exists>p. posts (snd (call_getter g E self q re w)) = posts w @ [p])
   \<and> length (posts (snd (call_getter g E self q re w))) = length (posts w) + 1"
proof (cases re)
  case None
  then show ?thesis
    by (simp add: call_getter_None call_getter_world WMLS_invocations WMLS_posts)
next
  case (Some s)
  then show ?thesis
    by (simp add: call_getter_world WMLS_invocations WMLS_posts)
qed

theorem getter_single_invocation_witness:
  "length (invocations (snd (call_getter Get_mudLogs (example_env 200 (- 1) ''<mudLogs/>'')
       (example_client 200 (- 1) ''<mudLogs/>'') ''q'' None
       \<lparr>invocations = [], posts = []\<rparr>))) = 1
   \<and> length (posts (snd (call_getter Get_mudLogs (example_env 200 (- 1) ''<mudLogs/>'')
       (example_client 200 (- 1) ''<mudLogs/>'') ''q'' None
       \<lparr>invocations = [], posts = []\<rparr>))) = 1"
  using getter_single_invocation
    [of Get_mudLogs "example_env 200 (- 1) ''<mudLogs/>''"
        "example_client 200 (- 1) ''<mudLogs/>''" "''q''" None
        "\<lparr>invocations = [], posts = []\<rparr>"]
  by simp

subsection \<open>Authentication and certificate verification\<close>

text \<open>
  Claim C7. The client that \<^verbatim>\<open>simple_client(service_url, username, password,
  agent_name, verify)\<close> builds has a \<open>RequestsTransport\<close> holding exactly the pair
  (username, password) and the verify setting (\<^verbatim>\<open>True\<close> when omitted); every request
  that transport sends is one \<^verbatim>\<open>requests.post\<close> with \<^verbatim>\<open>auth=\<close> that pair and
  \<^verbatim>\<open>verify=\<close> that setting; and so is the post of every getter call on a
  \<open>StoreClient\<close> built from the same arguments.
\<close>

theorem simple_client_transport:
  "transport (simple_client E service_url username password agent_name (Some v)) =
     \<lparr>verify = Some v, auth = (Some (PyStr username), Some (PyStr password)),
      http_kwargs = []\<rparr>
   \<and> verify (transport (simple_client E service_url username password agent_name None)) =
       Some (PyBool True)
   \<and> posts (snd (send E
        (transport (simple_client E service_url username password agent_name (Some v)))
        request w)) =
     posts w @
       [\<lparr>post_url = url request, post_data = message request,
         post_headers = headers request, post_verify = Some v,
         post_auth = (Some (PyStr username), Some (PyStr password))\<rparr>]
   \<and> (\<exists>request :: Request.
        posts (snd (call_getter g E
          (StoreClient_init E service_url username password agent_name (Some v)) q re w)) =
        posts w @
          [\<lparr>post_url = url request, post_data = message request,
            post_headers = headers request, post_verify = Some v,
            post_auth = (Some (PyStr username), Some (PyStr password))\<rparr>])"
proof -
  have t: "transport (simple_client E service_url username password a (Some v)) =
     \<lparr>verify = Some v, auth = (Some (PyStr username), Some (PyStr password)),
      http_kwargs = []\<rparr>" for a
    by (simp add: simple_client_def RequestsTransport_init_def pop_def)
  have d: "verify (transport (simple_client E service_url username password agent_name None)) =
       Some (PyBool True)"
    by (simp add: simple_client_def RequestsTransport_init_def pop_def)
  have c: "soap_client (StoreClient_init E service_url username password agent_name (Some v)) =
      simple_client E service_url username password
        (Some (case agent_name of None \<Rightarrow> ''komle'' | Some a \<Rightarrow> a)) (Some v)"
    by (simp add: StoreClient_init_def)
  have g: "\<exists>request :: Request.
        posts (snd (call_getter g E
          (StoreClient_init E service_url username password agent_name (Some v)) q (Some s) w)) =
        posts w @
          [\<lparr>post_url = url request, post_data = message request,
            post_headers = headers request, post_verify = Some v,
            post_auth = (Some (PyStr username), Some (PyStr password))\<rparr>]" for s
  proof -
    let ?client = "simple_client E service_url username password
        (Some (case agent_name of None \<Rightarrow> ''komle'' | Some a \<Rightarrow> a)) (Some v)"
    let ?request = "marshal E ?client (expected_call g E q s)"
    have eq: "posts (snd (call_getter g E
          (StoreClient_init E service_url username password agent_name (Some v)) q (Some s) w)) =
        posts w @
          [\<lparr>post_url = url ?request, post_data = message ?request,
            post_headers = headers ?request, post_verify = Some v,
            post_auth = (Some (PyStr username), Some (PyStr password))\<rparr>]"
      by (simp add: call_getter_world WMLS_posts c t)
    show ?thesis
      by (rule exI [of _ "?request"]) (rule eq)
  qed
  have g': "\<exists>request :: Request.
        posts (snd (call_getter g E
          (StoreClient_init E service_url username password agent_name (Some v)) q re w)) =
        posts w @
          [\<lparr>post_url = url request, post_data = message request,
            post_headers = headers request, post_verify = Some v,
            post_auth = (Some (PyStr username), Some (PyStr password))\<rparr>]"
  proof (cases re)
    case None
    then show ?thesis using g [of "''id-only''"] by (simp add: call_getter_None)
  next
    case (Some s)
    then show ?thesis using g [of s] by simp
  qed
  have p: "posts (snd (send E
        (transport (simple_client E service_url username password agent_name (Some v)))
        request w)) =
     posts w @
       [\<lparr>post_url = url request, post_data = message request,
         post_headers = headers request, post_verify = Some v,
         post_auth = (Some (PyStr username), Some (PyStr password))\<rparr>]"
    by (simp add: t send_posts)
  from t [of agent_name] d p g' show ?thesis
    by (intro conjI)
qed

theorem simple_client_transport_witness:
  "posts (snd (call_getter Get_logs (example_env 200 1 ''<logs/>'')
      (StoreClient_init (example_env 200 1 ''<logs/>'') ''https://store'' ''user'' ''secret''
         None (Some (PyStr ''/etc/ssl/ca.pem'')))
      ''q'' (Some ''all'') \<lparr>invocations = [], posts = []\<rparr>)) =
     [\<lparr>post_url = ''https://store'', post_data = ''log1.4.1.1q'',
       post_headers = [(''User-Agent'', ''komle'')],
       post_verify = Some (PyStr ''/etc/ssl/ca.pem''),
       post_auth = (Some (PyStr ''user''), Some (PyStr ''secret''))\<rparr>]"
  using simple_client_transport
    [of "example_env 200 1 ''<logs/>''" "''https://store''" "''user''" "''secret''" None
        "PyStr ''/etc/ssl/ca.pem''" "\<lparr>url = '''', message = '''', headers = []\<rparr>"
        "\<lparr>invocations = [], posts = []\<rparr>" Get_logs "''q''" "Some ''all''"]
  by (simp add: example_defs get_logs_def)

subsection \<open>The default of returnElements\<close>

text \<open>
  Claim C8. For each of the ten getters, a call that omits \<^verbatim>\<open>returnElements\<close> has the
  same outcome and the same effects as the call with \<^verbatim>\<open>returnElements='id-only'\<close>, and
  the invocation it makes carries \<^verbatim>\<open>OptionsIn = 'returnElements=id-only'\<close>.
\<close>

theorem default_returnElements:
  "call_getter g E self q None w = call_getter g E self q (Some ''id-only'') w
   \<and> (\<exists>c. invocations (snd (call_getter g E self q None w)) = invocations w @ [c]
         \<and> WMLtypeIn c = singular g
         \<and> OptionsIn c = Some ''returnElements=id-only'')"
  by (simp add: call_getter_None call_getter_world WMLS_invocations expected_call_def)

theorem default_returnElements_witness:
  "invocations (snd (call_getter Get_tubulars (example_env 200 1 ''<tubulars/>'')
      (example_client 200 1 ''<tubulars/>'') ''q'' None \<lparr>invocations = [], posts = []\<rparr>)) =
     [\<lparr>WMLtypeIn = ''tubular'', XMLin = ''1.4.1.1q'',
       OptionsIn = Some ''returnElements=id-only'', CapabilitiesIn = None\<rparr>]"
  using default_returnElements
    [of Get_tubulars "example_env 200 1 ''<tubulars/>''"
        "example_client 200 1 ''<tubulars/>''" "''q''" "\<lparr>invocations = [], posts = []\<rparr>"]
  by (simp add: example_defs get_tubulars_def)

subsection \<open>No validation of returnElements\<close>

text \<open>
  Claim C9. For every string, listed in the docstrings or not, each getter forwards
  \<^verbatim>\<open>OptionsIn = 'returnElements='\<close> followed by the string, unchanged, in its one
  invocation; nothing is raised before the remote call: the outcome of the getter is the
  exception of the remote call, or what \<^verbatim>\<open>_parse_reply\<close> makes of its reply.
\<close>

theorem returnElements_not_validated:
  "(\<exists>c. invocations (snd (call_getter g E self q (Some s) w)) = invocations w @ [c]
        \<and> OptionsIn c = Some (''returnElements='' @ s))
   \<and> fst (call_getter g E self q (Some s) w) =
       (case fst (WMLS_GetFromStore E (soap_client self) (expected_call g E q s) w) of
          Inl e \<Rightarrow> Inl e
        | Inr reply \<Rightarrow> parse_reply E reply)
   \<and> ''everything'' \<notin> set returnElements_values
   \<and> (\<exists>c. invocations (snd (call_getter g E self q (Some ''everything'') w)) =
            invocations w @ [c]
        \<and> OptionsIn c = Some ''returnElements=everything'')"
proof -
  have a: "\<exists>c. invocations (snd (call_getter g E self q (Some v) w)) = invocations w @ [c]
        \<and> OptionsIn c = Some (''returnElements='' @ v)" for v
    by (simp add: call_getter_world WMLS_invocations expected_call_def)
  have b: "''everything'' \<notin> set returnElements_values"
    by (simp add: returnElements_values_def)
  show ?thesis
    using a [of s] a [of "''everything''"] b by (simp add: call_getter_outcome)
qed

theorem returnElements_not_validated_witness:
  "'''' \<notin> set returnElements_values
   \<and> call_getter Get_drillReports (example_env 200 1 ''<drillReports/>'')
      (example_client 200 1 ''<drillReports/>'') ''q'' (Some '''')
      \<lparr>invocations = [], posts = []\<rparr> =
     (Inr [''<drillReports/>''],
      \<lparr>invocations = [\<lparr>WMLtypeIn = ''drillReport'', XMLin = ''1.4.1.1q'',
          OptionsIn = Some ''returnElements='', CapabilitiesIn = None\<rparr>],
       posts = [\<lparr>post_url = ''https://store'', post_data = ''drillReport1.4.1.1q'',
          post_headers = [(''User-Agent'', ''komle'')], post_verify = Some (PyBool True),
          post_auth = (Some (PyStr ''user''), Some (PyStr ''secret''))\<rparr>]\<rparr>)"
  using returnElements_not_validated
    [of Get_drillReports "example_env 200 1 ''<drillReports/>''"
        "example_client 200 1 ''<drillReports/>''" "''q''" "''''"
        "\<lparr>invocations = [], posts = []\<rparr>"]
  by (simp add: example_defs get_drillReports_def returnElements_values_def)

subsection \<open>HTTP status codes\<close>

text \<open>
  Claim C10. When the response to the post has a status code from 400 to 599,
  \<open>send\<close> raises the \<^verbatim>\<open>HTTPError\<close> of \<^verbatim>\<open>raise_for_status\<close> and builds no
  \<open>Reply\<close>, so that the getter raises that error and \<^verbatim>\<open>_parse_reply\<close> is not reached;
  for every other status code (the successful ones among them) \<open>send\<close> returns the
  \<open>Reply\<close> of exactly the response's status code, headers and content.
\<close>

theorem send_status:
  "(requests_post E (posts w)
       \<lparr>post_url = url request, post_data = message request, post_headers = headers request,
        post_verify = verify tr, post_auth = auth tr\<rparr> = Inr resp
     \<and> 400 \<le> status_code resp \<and> status_code resp < 600
     \<longrightarrow> fst (send E tr request w) = Inl (HTTPError resp))
   \<and> (requests_post E (posts w)
       \<lparr>post_url = url request, post_data = message request, post_headers = headers request,
        post_verify = verify tr, post_auth = auth tr\<rparr> = Inr resp
     \<and> \<not> (400 \<le> status_code resp \<and> status_code resp < 600)
     \<longrightarrow> fst (send E tr request w) =
          Inr (Reply (status_code resp) (resp_headers resp) (content resp)))
   \<and> (\<forall>g self q s.
        requests_post E (posts w)
          \<lparr>post_url = url (marshal E (soap_client self) (expected_call g E q s)),
           post_data = message (marshal E (soap_client self) (expected_call g E q s)),
           post_headers = headers (marshal E (soap_client self) (expected_call g E q s)),
           post_verify = verify (transport (soap_client self)),
           post_auth = auth (transport (soap_client self))\<rparr> = Inr resp
        \<and> 400 \<le> status_code resp \<and> status_code resp < 600
        \<longrightarrow> fst (call_getter g E self q (Some s) w) = Inl (HTTPError resp))"
proof -
  have a: "fst (send E tr request w) = Inl (HTTPError resp)"
    if "requests_post E (posts w)
       \<lparr>post_url = url request, post_data = message request, post_headers = headers request,
        post_verify = verify tr, post_auth = auth tr\<rparr> = Inr resp"
      and "400 \<le> status_code resp \<and> status_code resp < 600" for tr request and w :: world
    using that by (simp add: send_def raise_for_status_def Let_def)
  have b: "fst (send E tr request w) =
          Inr (Reply (status_code resp) (resp_headers resp) (content resp))"
    if "requests_post E (posts w)
       \<lparr>post_url = url request, post_data = message request, post_headers = headers request,
        post_verify = verify tr, post_auth = auth tr\<rparr> = Inr resp"
      and "\<not> (400 \<le> status_code resp \<and> status_code resp < 600)"
    using that by (auto simp: send_def raise_for_status_def Let_def)
  have c: "fst (call_getter g E self q (Some s) w) = Inl (HTTPError resp)"
    if r: "requests_post E (posts w)
          \<lparr>post_url = url (marshal E (soap_client self) (expected_call g E q s)),
           post_data = message (marshal E (soap_client self) (expected_call g E q s)),
           post_headers = headers (marshal E (soap_client self) (expected_call g E q s)),
           post_verify = verify (transport (soap_client self)),
           post_auth = auth (transport (soap_client self))\<rparr> = Inr resp"
      and s: "400 \<le> status_code resp \<and> status_code resp < 600" for g self q s
  proof -
    let ?w1 = "w\<lparr>invocations := invocations w @ [expected_call g E q s]\<rparr>"
    obtain r w2 where sd: "send E (transport (soap_client self))
        (marshal E (soap_client self) (expected_call g E q s)) ?w1 = (r, w2)"
      by (cases "send E (transport (soap_client self))
        (marshal E (soap_client self) (expected_call g E q s)) ?w1")
    have "fst (send E (transport (soap_client self))
        (marshal E (soap_client self) (expected_call g E q s)) ?w1) = Inl (HTTPError resp)"
      using a [of ?w1 "marshal E (soap_client self) (expected_call g E q s)"
          "transport (soap_client self)"] r s by simp
    then have "r = Inl (HTTPError resp)"
      by (simp add: sd)
    then have "fst (WMLS_GetFromStore E (soap_client self) (expected_call g E q s) w) =
        Inl (HTTPError resp)"
      by (simp add: WMLS_GetFromStore_def Let_def sd)
    then show ?thesis
      by (simp add: call_getter_outcome)
  qed
  from a [of w request tr] b c show ?thesis
    by blast
qed

theorem send_status_witness:
  "fst (send (example_env 503 1 ''Service Unavailable'')
      \<lparr>verify = None, auth = (None, None), http_kwargs = []\<rparr>
      \<lparr>url = ''https://store'', message = ''m'', headers = []\<rparr>
      \<lparr>invocations = [], posts = []\<rparr>) =
     Inl (HTTPError \<lparr>status_code = 503, resp_headers = [], content = ''Service Unavailable''\<rparr>)
   \<and> fst (call_getter Get_logs (example_env 503 1 ''Service Unavailable'')
      (example_client 503 1 ''Service Unavailable'') ''q'' (Some ''all'')
      \<lparr>invocations = [], posts = []\<rparr>) =
     Inl (HTTPError \<lparr>status_code = 503, resp_headers = [], content = ''Service Unavailable''\<rparr>)
   \<and> fst (send (example_env 200 1 ''<logs/>'')
      \<lparr>verify = None, auth = (None, None), http_kwargs = []\<rparr>
      \<lparr>url = ''https://store'', message = ''m'', headers = []\<rparr>
      \<lparr>invocations = [], posts = []\<rparr>) = Inr (Reply 200 [] ''<logs/>'')"
  using send_status
    [of "example_env 503 1 ''Service Unavailable''" "\<lparr>invocations = [], posts = []\<rparr>"
        "\<lparr>url = ''https://store'', message = ''m'', headers = []\<rparr>"
        "\<lparr>verify = None, auth = (None, None), http_kwargs = []\<rparr>"
        "\<lparr>status_code = 503, resp_headers = [], content = ''Service Unavailable''\<rparr>"]
    send_status
    [of "example_env 200 1 ''<logs/>''" "\<lparr>invocations = [], posts = []\<rparr>"
        "\<lparr>url = ''https://store'', message = ''m'', headers = []\<rparr>"
        "\<lparr>verify = None, auth = (None, None), http_kwargs = []\<rparr>"
        "\<lparr>status_code = 200, resp_headers = [], content = ''<logs/>''\<rparr>"]
  by (simp add: example_defs get_logs_def)

end
